theory Spec2Isabelle
  imports Complex_Main "HOL-Library.Multiset"
begin

section \<open>PPO for autoregressive policies: \<open>rl4co/models/rl/ppo/ppo.py\<close>\<close>

text \<open>
  The development embeds the class \<open>PPO\<close>: the validation of the hyperparameters in
  \<open>__init__\<close> and the training step \<open>shared_step\<close>.

  Conventions of the embedding.
  \<^item> A floating-point value is a real number, an infinity or NaN. The special values
    follow IEEE 754 (\<open>inf * 0\<close>, \<open>inf - inf\<close> and \<open>0 / 0\<close> are NaN, NaN propagates),
    \<open>torch.exp\<close> overflows to \<open>inf\<close> as in float32, the default type of torch, the
    standard deviation of fewer than two elements is NaN, and the product of Python
    floats in line 141 is rounded to the nearest double. Otherwise the arithmetic on
    finite values is exact: no rounding and no overflow. Tensors whose values are
    finite under this reading (the outputs of the collaborators, their sums,
    differences and means) are lists of reals; the mean of an empty list of reals is
    left to HOL's division by zero, and the theorems assume a minibatch that is not
    empty.
  \<^item> A tensor carries, beside its data, the set of parameter groups that its autograd
    graph reaches: \<open>detach\<close> and \<open>torch.no_grad()\<close> yield the empty set.
  \<^item> A batched tensor dictionary is the list of its rows; tensors of shape \<open>[batch]\<close>
    and \<open>[batch, 1]\<close> are lists of reals (\<open>view(-1, 1)\<close> does not change the data).
  \<^item> The environment, the policy, the critic, the optimizer and the random sampler are
    parameters of the model.
\<close>

subsection \<open>Hyperparameters and their validation (\<open>PPO.__init__\<close>)\<close>

text \<open>
  The argument \<open>mini_batch_size\<close> is annotated \<open>Union[int, float]\<close> and inspected with
  \<open>isinstance\<close>: a Python \<open>int\<close>, a Python \<open>float\<close>, or a value of any other type.
\<close>

datatype py_value = PyInt int | PyFloat real | PyOther

record ppo_cfg =
  clip_range :: real
  ppo_epochs :: int
  mini_batch_size :: py_value
  vf_lambda :: real
  entropy_lambda :: real
  normalize_adv :: bool
  max_grad_norm :: "real option"

text \<open>
  \<open>log.warning(f"mini_batch_size must be ..., got {x}. Setting mini_batch_size to {d}.")\<close>:
  the event records the rejected value and the default that replaces it.
\<close>

datatype log_event = Warning py_value py_value

definition default_mini_batch_fraction :: real where
  "default_mini_batch_fraction = 0.25"

definition default_mini_batch_size :: int where
  "default_mini_batch_size = 128"

text \<open>Lines 87-94: a float outside \<open>(0, 1]\<close> is replaced by the default fraction.\<close>

definition check_fraction :: "py_value \<Rightarrow> py_value \<times> log_event list" where
  "check_fraction m =
     (case m of
        PyFloat f \<Rightarrow>
          if f \<le> 0 \<or> f > 1
          then (PyFloat default_mini_batch_fraction,
                [Warning m (PyFloat default_mini_batch_fraction)])
          else (m, [])
      | _ \<Rightarrow> (m, []))"

text \<open>Lines 96-101: an integer \<open>\<le> 0\<close> is replaced by the default integer.\<close>

definition check_integer :: "py_value \<Rightarrow> py_value \<times> log_event list" where
  "check_integer m =
     (case m of
        PyInt i \<Rightarrow>
          if i \<le> 0
          then (PyInt default_mini_batch_size, [Warning m (PyInt default_mini_batch_size)])
          else (m, [])
      | _ \<Rightarrow> (m, []))"

text \<open>
  The hyperparameter part of \<open>__init__\<close> (lines 87-111): the two checks in the order of
  the source, then the dictionary \<open>self.ppo_cfg\<close>, every other argument copied as given.
  The result is the configuration and the warnings logged. The function is total:
  \<open>__init__\<close> has no \<open>raise\<close>.
\<close>

definition PPO_init :: "ppo_cfg \<Rightarrow> ppo_cfg \<times> log_event list" where
  "PPO_init args =
     (let (m1, w1) = check_fraction (mini_batch_size args);
          (m2, w2) = check_integer m1
      in (\<lparr>clip_range = clip_range args,
           ppo_epochs = ppo_epochs args,
           mini_batch_size = m2,
           vf_lambda = vf_lambda args,
           entropy_lambda = entropy_lambda args,
           normalize_adv = normalize_adv args,
           max_grad_norm = max_grad_norm args\<rparr>, w1 @ w2))"

text \<open>The defaults of the signature of \<open>__init__\<close> (lines 67-73).\<close>

definition default_args :: ppo_cfg where
  "default_args =
     \<lparr>clip_range = 0.2, ppo_epochs = 2, mini_batch_size = PyFloat 0.25,
      vf_lambda = 0.5, entropy_lambda = 0.0, normalize_adv = False,
      max_grad_norm = Some 0.5\<rparr>"

subsection \<open>The size of a minibatch (\<open>shared_step\<close>, lines 139-148)\<close>

datatype error =
  ValueError string
| UnboundLocalError string

text \<open>Python's \<open>int(x)\<close> on a float truncates towards zero.\<close>

definition py_int :: "real \<Rightarrow> int" where
  "py_int x = (if 0 \<le> x then \<lfloor>x\<rfloor> else \<lceil>x\<rceil>)"

text \<open>
  The product \<open>batch_size * mini_batch_size\<close> of line 141 is a product of Python floats,
  that is the exact product rounded to the nearest number with a significand of 53 bits,
  ties to the even significand (IEEE 754 binary64; the range of the exponent is not
  bounded here, which does not matter for a batch size below \<open>2 ^ 53\<close> and a fraction
  in \<open>(0, 1]\<close>).
\<close>

definition round_even :: "real \<Rightarrow> int" where
  "round_even x =
     (if x - of_int \<lfloor>x\<rfloor> < 1 / 2 then \<lfloor>x\<rfloor>
      else if 1 / 2 < x - of_int \<lfloor>x\<rfloor> then \<lfloor>x\<rfloor> + 1
      else if even \<lfloor>x\<rfloor> then \<lfloor>x\<rfloor> else \<lfloor>x\<rfloor> + 1)"

definition round_double :: "real \<Rightarrow> real" where
  "round_double x =
     (if x = 0 then 0
      else of_int (round_even (x / 2 powr (of_int \<lfloor>log 2 \<bar>x\<bar>\<rfloor> - 52)))
             * 2 powr (of_int \<lfloor>log 2 \<bar>x\<bar>\<rfloor> - 52))"

definition infer_mini_batch_size :: "ppo_cfg \<Rightarrow> nat \<Rightarrow> error + int" where
  "infer_mini_batch_size cfg batch_size =
     (case mini_batch_size cfg of
        PyFloat f \<Rightarrow> Inr (py_int (round_double (real batch_size * f)))
      | PyInt i \<Rightarrow> Inr i
      | PyOther \<Rightarrow> Inl (ValueError ''mini_batch_size must be an integer or a float.''))"

definition clamp_mini_batch_size :: "int \<Rightarrow> nat \<Rightarrow> int" where
  "clamp_mini_batch_size m batch_size =
     (if m > int batch_size then int batch_size else m)"

subsection \<open>Floating-point values\<close>

text \<open>
  The values of a torch tensor of floats: the finite ones, the two infinities and NaN.
  The operations are exact on finite values and follow IEEE 754 on the others. Zero
  has no sign: a division by zero counts as a division by \<open>+0\<close>.
\<close>

datatype fval = Finite real | PosInf | NegInf | NaN

fun fneg :: "fval \<Rightarrow> fval" where
  "fneg (Finite x) = Finite (- x)"
| "fneg PosInf = NegInf"
| "fneg NegInf = PosInf"
| "fneg NaN = NaN"

fun fadd :: "fval \<Rightarrow> fval \<Rightarrow> fval" where
  "fadd NaN y = NaN"
| "fadd x NaN = NaN"
| "fadd (Finite x) (Finite y) = Finite (x + y)"
| "fadd PosInf NegInf = NaN"
| "fadd NegInf PosInf = NaN"
| "fadd PosInf y = PosInf"
| "fadd x PosInf = PosInf"
| "fadd NegInf y = NegInf"
| "fadd x NegInf = NegInf"

definition fsub :: "fval \<Rightarrow> fval \<Rightarrow> fval" where
  "fsub x y = fadd x (fneg y)"

text \<open>The sign of a product or quotient with an infinity: \<open>inf\<close> times or divided by a
  positive value, \<open>-inf\<close> for a negative one.\<close>

definition signed_inf :: "bool \<Rightarrow> fval" where
  "signed_inf positive = (if positive then PosInf else NegInf)"

fun fmul :: "fval \<Rightarrow> fval \<Rightarrow> fval" where
  "fmul NaN y = NaN"
| "fmul x NaN = NaN"
| "fmul (Finite x) (Finite y) = Finite (x * y)"
| "fmul (Finite x) PosInf = (if x = 0 then NaN else signed_inf (0 < x))"
| "fmul (Finite x) NegInf = (if x = 0 then NaN else signed_inf (x < 0))"
| "fmul PosInf (Finite y) = (if y = 0 then NaN else signed_inf (0 < y))"
| "fmul NegInf (Finite y) = (if y = 0 then NaN else signed_inf (y < 0))"
| "fmul PosInf PosInf = PosInf"
| "fmul NegInf NegInf = PosInf"
| "fmul PosInf NegInf = NegInf"
| "fmul NegInf PosInf = NegInf"

fun fdiv :: "fval \<Rightarrow> fval \<Rightarrow> fval" where
  "fdiv NaN y = NaN"
| "fdiv x NaN = NaN"
| "fdiv (Finite x) (Finite y) =
     (if y = 0 then (if x = 0 then NaN else signed_inf (0 < x)) else Finite (x / y))"
| "fdiv (Finite x) PosInf = Finite 0"
| "fdiv (Finite x) NegInf = Finite 0"
| "fdiv PosInf (Finite y) = signed_inf (0 \<le> y)"
| "fdiv NegInf (Finite y) = signed_inf (y < 0)"
| "fdiv PosInf y = NaN"
| "fdiv NegInf y = NaN"

text \<open>\<open>torch.min\<close> and \<open>torch.max\<close> of two values: NaN if one of them is NaN.\<close>

fun fmin :: "fval \<Rightarrow> fval \<Rightarrow> fval" where
  "fmin NaN y = NaN"
| "fmin x NaN = NaN"
| "fmin NegInf y = NegInf"
| "fmin x NegInf = NegInf"
| "fmin PosInf y = y"
| "fmin x PosInf = x"
| "fmin (Finite x) (Finite y) = Finite (min x y)"

fun fmax :: "fval \<Rightarrow> fval \<Rightarrow> fval" where
  "fmax NaN y = NaN"
| "fmax x NaN = NaN"
| "fmax PosInf y = PosInf"
| "fmax x PosInf = PosInf"
| "fmax NegInf y = y"
| "fmax x NegInf = x"
| "fmax (Finite x) (Finite y) = Finite (max x y)"

text \<open>
  \<open>exp\<close> in float32: the result is \<open>inf\<close> from the point on where the exponential
  rounds to no finite float32, half an ulp above the largest one,
  \<open>(2 - 1 / 2 ^ 24) * 2 ^ 127\<close> (arguments above about 88.72).
\<close>

definition float32_overflow :: real where
  "float32_overflow = (2 - 1 / 2 ^ 24) * 2 ^ 127"

definition fexp :: "real \<Rightarrow> fval" where
  "fexp x = (if float32_overflow \<le> exp x then PosInf else Finite (exp x))"

text \<open>The sum and the mean of a tensor: \<open>mean()\<close> of an empty tensor is \<open>0 / 0\<close>.\<close>

fun fsum :: "fval list \<Rightarrow> fval" where
  "fsum [] = Finite 0"
| "fsum (x # xs) = fadd x (fsum xs)"

definition fmean :: "fval list \<Rightarrow> fval" where
  "fmean xs = fdiv (fsum xs) (Finite (real (length xs)))"

subsection \<open>Tensors\<close>

text \<open>
  The parameters that the optimizer updates are those of the policy and those of the
  critic (\<open>configure_optimizers\<close>, lines 113-115). A tensor is its data with the set of
  parameter groups to which a backward pass from it would deliver a gradient.
\<close>

datatype param_group = PolicyParams | CriticParams

datatype 'a tensor = Tensor (data: 'a) (graph: "param_group set")

definition detach :: "'a tensor \<Rightarrow> 'a tensor" where
  "detach t = Tensor (data t) {}"

text \<open>An operation on one tensor keeps its graph; on two tensors it joins the graphs.\<close>

definition lift1 :: "('a \<Rightarrow> 'b) \<Rightarrow> 'a tensor \<Rightarrow> 'b tensor" where
  "lift1 f t = Tensor (f (data t)) (graph t)"

definition lift2 :: "('a \<Rightarrow> 'b \<Rightarrow> 'c) \<Rightarrow> 'a tensor \<Rightarrow> 'b tensor \<Rightarrow> 'c tensor" where
  "lift2 f s t = Tensor (f (data s) (data t)) (graph s \<union> graph t)"

text \<open>Reductions of a list of reals: \<open>mean()\<close>, and \<open>std()\<close> with Bessel's correction
  (the default of torch), which is NaN for fewer than two elements.\<close>

definition mean_list :: "real list \<Rightarrow> real" where
  "mean_list xs = sum_list xs / real (length xs)"

definition std_list :: "real list \<Rightarrow> fval" where
  "std_list xs =
     (if length xs < 2 then NaN
      else Finite (sqrt (sum_list (map (\<lambda>x. (x - mean_list xs)\<^sup>2) xs)
                           / (real (length xs) - 1))))"

text \<open>\<open>torch.clamp(x, lo, hi)\<close> is \<open>min(max(x, lo), hi)\<close>: where \<open>lo > hi\<close> the result
  is \<open>hi\<close>, and the clamp of NaN is NaN.\<close>

definition clamp :: "fval \<Rightarrow> real \<Rightarrow> real \<Rightarrow> fval" where
  "clamp x lo hi = fmin (fmax x (Finite lo)) (Finite hi)"

text \<open>One term of \<open>F.huber_loss\<close> with the default \<open>delta = 1.0\<close>.\<close>

definition huber :: "real \<Rightarrow> real \<Rightarrow> real" where
  "huber x y =
     (if \<bar>x - y\<bar> < 1 then 0.5 * (x - y)\<^sup>2 else 1 * (\<bar>x - y\<bar> - 0.5 * 1))"

text \<open>The tensor operations that \<open>shared_step\<close> uses.\<close>

definition t_sum_last :: "real list list tensor \<Rightarrow> real list tensor" where
  "t_sum_last = lift1 (map sum_list)"

definition torch_exp :: "real list tensor \<Rightarrow> fval list tensor" where
  "torch_exp = lift1 (map fexp)"

definition t_sub :: "real list tensor \<Rightarrow> real list tensor \<Rightarrow> real list tensor" where
  "t_sub = lift2 (map2 (-))"

definition t_mul :: "fval list tensor \<Rightarrow> fval list tensor \<Rightarrow> fval list tensor" where
  "t_mul = lift2 (map2 fmul)"

definition torch_min :: "fval list tensor \<Rightarrow> fval list tensor \<Rightarrow> fval list tensor" where
  "torch_min = lift2 (map2 fmin)"

definition torch_clamp :: "fval list tensor \<Rightarrow> real \<Rightarrow> real \<Rightarrow> fval list tensor" where
  "torch_clamp t lo hi = lift1 (map (\<lambda>x. clamp x lo hi)) t"

definition t_mean :: "real list tensor \<Rightarrow> real tensor" where
  "t_mean = lift1 mean_list"

definition t_fmean :: "fval list tensor \<Rightarrow> fval tensor" where
  "t_fmean = lift1 fmean"

definition t_std :: "real list tensor \<Rightarrow> fval tensor" where
  "t_std = lift1 std_list"

text \<open>A tensor of finite values among the tensors of floating-point values.\<close>

definition finite_values :: "real list tensor \<Rightarrow> fval list tensor" where
  "finite_values = lift1 (map Finite)"

definition finite_value :: "real tensor \<Rightarrow> fval tensor" where
  "finite_value = lift1 Finite"

text \<open>A tensor and a zero-dimensional tensor: the scalar is broadcast.\<close>

definition t_sub_scalar :: "real list tensor \<Rightarrow> real tensor \<Rightarrow> real list tensor" where
  "t_sub_scalar = lift2 (\<lambda>xs m. map (\<lambda>x. x - m) xs)"

definition t_div_scalar :: "real list tensor \<Rightarrow> fval tensor \<Rightarrow> fval list tensor" where
  "t_div_scalar = lift2 (\<lambda>xs s. map (\<lambda>x. fdiv (Finite x) s) xs)"

text \<open>Zero-dimensional tensors and Python floats.\<close>

definition s_neg :: "fval tensor \<Rightarrow> fval tensor" where
  "s_neg = lift1 fneg"

definition s_add :: "fval tensor \<Rightarrow> real tensor \<Rightarrow> fval tensor" where
  "s_add = lift2 (\<lambda>x y. fadd x (Finite y))"

definition s_sub :: "fval tensor \<Rightarrow> real tensor \<Rightarrow> fval tensor" where
  "s_sub = lift2 (\<lambda>x y. fsub x (Finite y))"

definition s_add_float :: "fval tensor \<Rightarrow> real \<Rightarrow> fval tensor" where
  "s_add_float s c = lift1 (\<lambda>x. fadd x (Finite c)) s"

definition float_mul :: "real \<Rightarrow> real tensor \<Rightarrow> real tensor" where
  "float_mul c s = lift1 (\<lambda>x. c * x) s"

definition F_huber_loss :: "real list tensor \<Rightarrow> real list tensor \<Rightarrow> real tensor" where
  "F_huber_loss = lift2 (\<lambda>xs ys. mean_list (map2 huber xs ys))"

subsection \<open>Collaborators\<close>

text \<open>
  A row of the tensor dictionary \<open>td\<close> after lines 151-153: the state of one problem
  instance with the keys \<open>logprobs\<close>, \<open>reward\<close> and \<open>action\<close> set from the rollout.
\<close>

record ('x, 'a) row =
  state :: 'x
  logprobs :: real
  reward :: real
  action :: 'a

text \<open>
  What the policy returns: in decoding mode (line 134, \<open>return_actions=True\<close>) the
  keys \<open>actions\<close>, \<open>log_likelihood\<close> (summed over the decoding steps) and \<open>reward\<close>;
  in scoring mode (lines 168-174, \<open>return_entropy=True\<close>,
  \<open>return_sum_log_likelihood=False\<close>) the keys \<open>log_likelihood\<close> (one value per
  decoding step), \<open>entropy\<close> and \<open>reward\<close>.
\<close>

record 'a rollout_out =
  ro_actions :: "'a list"
  ro_log_likelihood :: "real list"
  ro_reward :: "real list"

record score_out =
  so_log_likelihood :: "real list list"
  so_entropy :: "real list"
  so_reward :: "real list"

text \<open>
  The collaborators of one training step. \<open>'b\<close> is a batch of problem instances, \<open>'x\<close>
  the state of one instance, \<open>'a\<close> an action sequence, \<open>'p\<close> the trainable state (the
  parameters of policy and critic, with the state of the optimizer), \<open>'g\<close> the
  gradients. \<open>randperm k n\<close> is the \<open>k\<close>-th permutation of \<open>[0..<n]\<close> that the random
  sampler of the data loader draws during the step.
\<close>

record ('b, 'x, 'a, 'p, 'g) collaborators =
  env_reset :: "'b \<Rightarrow> 'x list"
  policy :: "'p \<Rightarrow> string \<Rightarrow> 'x list \<Rightarrow> 'a rollout_out"
  policy_score :: "'p \<Rightarrow> ('x, 'a) row list \<Rightarrow> score_out"
  critic :: "'p \<Rightarrow> ('x, 'a) row list \<Rightarrow> real list"
  manual_backward :: "ppo_cfg \<Rightarrow> 'p \<Rightarrow> ('x, 'a) row list \<Rightarrow> fval tensor \<Rightarrow> 'g"
  clip_gradients :: "real \<Rightarrow> 'g \<Rightarrow> 'g"
  opt_step :: "'p \<Rightarrow> 'g \<Rightarrow> 'p"
  randperm :: "nat \<Rightarrow> nat \<Rightarrow> nat list"

subsection \<open>The losses of one minibatch (\<open>shared_step\<close>, lines 166-209)\<close>

text \<open>The local variables of \<open>shared_step\<close> at the end of one iteration of the inner
  loop.\<close>

record iteration =
  out :: score_out
  ratio :: "fval list tensor"
  value_pred :: "real list tensor"
  adv :: "fval list tensor"
  surrogate_loss :: "fval tensor"
  value_loss :: "real tensor"
  entropy :: "real list tensor"
  loss :: "fval tensor"

text \<open>Lines 186-188.\<close>

definition normalize :: "ppo_cfg \<Rightarrow> real list tensor \<Rightarrow> fval list tensor" where
  "normalize cfg a =
     (if normalize_adv cfg
      then t_div_scalar (t_sub_scalar a (t_mean a)) (s_add_float (t_std a) (1 / 10 ^ 8))
      else finite_values a)"

definition minibatch_losses ::
  "ppo_cfg \<Rightarrow> ('b, 'x, 'a, 'p, 'g) collaborators \<Rightarrow> 'p \<Rightarrow> ('x, 'a) row list \<Rightarrow> iteration"
where
  "minibatch_losses cfg C \<theta> sub_td =
     (let previous_reward = Tensor (map reward sub_td) {};
          out = policy_score C \<theta> sub_td;
          ll = Tensor (so_log_likelihood out) {PolicyParams};
          entropy = Tensor (so_entropy out) {PolicyParams};
          ratio = torch_exp (t_sub (t_sum_last ll) (Tensor (map logprobs sub_td) {}));
          value_pred = Tensor (critic C \<theta> sub_td) {CriticParams};
          adv = normalize cfg (t_sub previous_reward (detach value_pred));
          surrogate_loss =
            s_neg (t_fmean (torch_min
              (t_mul ratio adv)
              (t_mul (torch_clamp ratio (1 - clip_range cfg) (1 + clip_range cfg)) adv)));
          value_loss = F_huber_loss value_pred previous_reward;
          loss =
            s_sub (s_add surrogate_loss (float_mul (vf_lambda cfg) value_loss))
                  (float_mul (entropy_lambda cfg) (t_mean entropy))
      in \<lparr>out = out, ratio = ratio, value_pred = value_pred, adv = adv,
          surrogate_loss = surrogate_loss, value_loss = value_loss,
          entropy = entropy, loss = loss\<rparr>)"

subsection \<open>The data loader (lines 156-162)\<close>

text \<open>
  \<open>DataLoader(dataset, batch_size=m, shuffle=True)\<close> of torch: the batch sampler
  rejects a batch size that is not positive with a \<open>ValueError\<close>. Each iteration over
  the loader draws a permutation of the indices and cuts it into consecutive pieces of
  \<open>batch_size\<close> indices, the last one shorter when the size does not divide
  (\<open>drop_last\<close> is off); a minibatch is the rows at the indices of one piece.
\<close>

record 'r dataloader =
  dataset :: "'r list"
  batch_size :: nat

definition DataLoader :: "'r list \<Rightarrow> int \<Rightarrow> error + 'r dataloader" where
  "DataLoader ds m =
     (if m \<le> 0 then Inl (ValueError ''batch_size should be a positive integer value'')
      else Inr \<lparr>dataset = ds, batch_size = nat m\<rparr>)"

fun chunks :: "nat \<Rightarrow> 'i list \<Rightarrow> 'i list list" where
  "chunks m xs = (if m = 0 \<or> xs = [] then [] else take m xs # chunks m (drop m xs))"

declare chunks.simps [simp del]

definition batches :: "'r dataloader \<Rightarrow> nat list \<Rightarrow> 'r list list" where
  "batches dl perm = map (map (\<lambda>i. dataset dl ! i)) (chunks (batch_size dl) perm)"

subsection \<open>The inner optimization loop (lines 164-223)\<close>

text \<open>The module: its trainable state and the number of calls of \<open>opt.step()\<close>.\<close>

record 'p module =
  params :: 'p
  opt_steps :: nat

text \<open>
  One iteration (lines 166-223): the losses, then \<open>zero_grad\<close>, \<open>manual_backward\<close> of
  the total loss, the clipping of the gradients when \<open>max_grad_norm\<close> is not \<open>None\<close>, and
  one step of the optimizer. The local variables of the iteration stay visible after
  the loop; before the first iteration they are unbound.
\<close>

definition minibatch_step ::
  "ppo_cfg \<Rightarrow> ('b, 'x, 'a, 'p, 'g) collaborators \<Rightarrow> 'p module \<Rightarrow> ('x, 'a) row list
     \<Rightarrow> 'p module \<times> iteration option"
where
  "minibatch_step cfg C s sub_td =
     (let v = minibatch_losses cfg C (params s) sub_td;
          g = manual_backward C cfg (params s) sub_td (loss v);
          g' = (case max_grad_norm cfg of None \<Rightarrow> g | Some c \<Rightarrow> clip_gradients C c g)
      in (\<lparr>params = opt_step C (params s) g', opt_steps = Suc (opt_steps s)\<rparr>, Some v))"

fun run_minibatches ::
  "ppo_cfg \<Rightarrow> ('b, 'x, 'a, 'p, 'g) collaborators \<Rightarrow> 'p module \<times> iteration option
     \<Rightarrow> ('x, 'a) row list list \<Rightarrow> 'p module \<times> iteration option"
where
  "run_minibatches cfg C sv [] = sv"
| "run_minibatches cfg C sv (sub_td # rest) =
     run_minibatches cfg C (minibatch_step cfg C (fst sv) sub_td) rest"

text \<open>\<open>for _ in range(ppo_epochs)\<close>: each epoch iterates over the loader anew.\<close>

fun run_epochs ::
  "ppo_cfg \<Rightarrow> ('b, 'x, 'a, 'p, 'g) collaborators \<Rightarrow> ('x, 'a) row dataloader
     \<Rightarrow> 'p module \<times> iteration option \<Rightarrow> nat list \<Rightarrow> 'p module \<times> iteration option"
where
  "run_epochs cfg C dl sv [] = sv"
| "run_epochs cfg C dl sv (k # ks) =
     run_epochs cfg C dl
       (run_minibatches cfg C sv (batches dl (randperm C k (length (dataset dl))))) ks"

subsection \<open>Metrics and the result of a step (lines 225-235)\<close>

text \<open>The values of the dictionary \<open>out\<close>: tensors of dimension 0, 1 and 2, and the
  actions.\<close>

datatype 'a entry =
  Sca "fval tensor"
| Vec "real list tensor"
| Mat "real list list tensor"
| Actions "'a list"

type_synonym 'a pydict = "string \<rightharpoonup> 'a entry"

text \<open>The dictionary of a rollout, computed under \<open>torch.no_grad()\<close>, and the dictionary
  of a scoring call, computed with gradients (the reward comes from the environment).\<close>

definition rollout_dict :: "'a rollout_out \<Rightarrow> 'a pydict" where
  "rollout_dict r =
     [''actions'' \<mapsto> Actions (ro_actions r),
      ''log_likelihood'' \<mapsto> Vec (Tensor (ro_log_likelihood r) {}),
      ''reward'' \<mapsto> Vec (Tensor (ro_reward r) {})]"

definition score_dict :: "score_out \<Rightarrow> 'a pydict" where
  "score_dict r =
     [''log_likelihood'' \<mapsto> Mat (Tensor (so_log_likelihood r) {PolicyParams}),
      ''entropy'' \<mapsto> Vec (Tensor (so_entropy r) {PolicyParams}),
      ''reward'' \<mapsto> Vec (Tensor (so_reward r) {})]"

text \<open>The default of the argument \<open>metrics\<close> of \<open>__init__\<close> for the phase \<open>train\<close>
  (lines 74-76).\<close>

definition train_metrics :: "string list" where
  "train_metrics = [''reward'', ''loss'', ''surrogate_loss'', ''value_loss'', ''entropy'']"

text \<open>
  Modelled from the spec: \<open>log_metrics\<close> of the base class \<open>RL4COLitModule\<close>
  (\<open>rl4co/models/rl/common/base.py\<close>) is not among the sources. The spec has it
  report the mean reward and the loss components of the dictionary it is given: for
  every metric name configured for the phase that is a key of the dictionary, the mean
  of the tensor stored under it.
\<close>

fun entry_mean :: "'a entry \<Rightarrow> fval option" where
  "entry_mean (Sca t) = Some (data t)"
| "entry_mean (Vec t) = Some (fmean (map Finite (data t)))"
| "entry_mean (Mat t) = Some (fmean (map Finite (concat (data t))))"
| "entry_mean (Actions a) = None"

fun log_metrics :: "string list \<Rightarrow> 'a pydict \<Rightarrow> (string \<times> fval) list" where
  "log_metrics [] d = []"
| "log_metrics (k # ks) d =
     (case d k of
        None \<Rightarrow> log_metrics ks d
      | Some e \<Rightarrow>
          (case entry_mean e of
             None \<Rightarrow> log_metrics ks d
           | Some m \<Rightarrow> (k, m) # log_metrics ks d))"

text \<open>The dictionary that \<open>shared_step\<close> returns: the key \<open>loss\<close> and the metrics.\<close>

record 'a step_result =
  ret_loss :: "'a entry option"
  ret_metrics :: "(string \<times> fval) list"

subsection \<open>\<open>shared_step\<close> (lines 128-235)\<close>

text \<open>Lines 151-153: the rollout is stored into \<open>td\<close>, row by row.\<close>

definition set_rollout :: "'x list \<Rightarrow> 'a rollout_out \<Rightarrow> ('x, 'a) row list" where
  "set_rollout td r =
     map (\<lambda>(x, l, w, a). \<lparr>state = x, logprobs = l, reward = w, action = a\<rparr>)
       (zip td (zip (ro_log_likelihood r) (zip (ro_reward r) (ro_actions r))))"

text \<open>Lines 234-235, common to all phases. \<open>metric_names\<close> gives the metric names
  configured for a phase.\<close>

definition finish ::
  "(string \<Rightarrow> string list) \<Rightarrow> string \<Rightarrow> 'p module \<Rightarrow> 'a pydict
     \<Rightarrow> error + 'p module \<times> 'a step_result"
where
  "finish metric_names phase s d =
     Inr (s, \<lparr>ret_loss = d ''loss'', ret_metrics = log_metrics (metric_names phase) d\<rparr>)"

definition shared_step ::
  "ppo_cfg \<Rightarrow> (string \<Rightarrow> string list) \<Rightarrow> ('b, 'x, 'a, 'p, 'g) collaborators
     \<Rightarrow> 'p module \<Rightarrow> 'b \<Rightarrow> string \<Rightarrow> error + 'p module \<times> 'a step_result"
where
  "shared_step cfg metric_names C s batch phase =
     (let td = env_reset C batch;
          out0 = policy C (params s) phase td
      in if phase = ''train'' then
           (let n = length (ro_actions out0)
            in case infer_mini_batch_size cfg n of
                 Inl e \<Rightarrow> Inl e
               | Inr m \<Rightarrow>
                   (case DataLoader (set_rollout td out0) (clamp_mini_batch_size m n) of
                      Inl e \<Rightarrow> Inl e
                    | Inr dl \<Rightarrow>
                        (case run_epochs cfg C dl (s, None) [0..<nat (ppo_epochs cfg)] of
                           (s', None) \<Rightarrow> Inl (UnboundLocalError ''loss'')
                         | (s', Some v) \<Rightarrow>
                             finish metric_names phase s'
                               ((score_dict (out v))
                                  (''loss'' \<mapsto> Sca (loss v),
                                   ''surrogate_loss'' \<mapsto> Sca (surrogate_loss v),
                                   ''value_loss'' \<mapsto> Sca (finite_value (value_loss v)),
                                   ''entropy'' \<mapsto>
                                     Sca (finite_value (t_mean (entropy v))))))))
         else finish metric_names phase s (rollout_dict out0))"

subsection \<open>Auxiliary definitions for the statements\<close>

text \<open>The parameter groups that the graph of a dictionary entry reaches.\<close>

fun entry_graph :: "'a entry \<Rightarrow> param_group set" where
  "entry_graph (Sca t) = graph t"
| "entry_graph (Vec t) = graph t"
| "entry_graph (Mat t) = graph t"
| "entry_graph (Actions a) = {}"

text \<open>The value that a step reports for a metric, if it reports one.\<close>

definition reported :: "string \<Rightarrow> error + 'p module \<times> 'a step_result \<Rightarrow> fval option" where
  "reported k res = (case res of Inl e \<Rightarrow> None | Inr (s, r) \<Rightarrow> map_of (ret_metrics r) k)"

text \<open>
  The shapes that the collaborators owe for a minibatch: the minibatch is not empty, the
  policy returns one row of log-likelihoods and one entropy per instance, the critic one
  value per instance (\<open>[batch, 1]\<close>, line 183).
\<close>

definition well_shaped ::
  "('b, 'x, 'a, 'p, 'g) collaborators \<Rightarrow> 'p \<Rightarrow> ('x, 'a) row list \<Rightarrow> bool" where
  "well_shaped C \<theta> sub_td =
     (sub_td \<noteq> [] \<and>
      length (so_log_likelihood (policy_score C \<theta> sub_td)) = length sub_td \<and>
      length (so_entropy (policy_score C \<theta> sub_td)) = length sub_td \<and>
      length (critic C \<theta> sub_td) = length sub_td)"

text \<open>
  The formulas in the words of the specification, instance by instance: the ratio
  \<open>exp(new_log_prob - old_log_prob)\<close>, the clipped surrogate objective, the
  standardization of the advantage, and the Huber loss.
\<close>

definition spec_ratio :: "real \<Rightarrow> real \<Rightarrow> fval" where
  "spec_ratio new_log_prob old_log_prob = fexp (new_log_prob - old_log_prob)"

definition spec_surrogate_loss :: "real \<Rightarrow> fval list \<Rightarrow> fval list \<Rightarrow> fval" where
  "spec_surrogate_loss c r a =
     fneg (fdiv (fsum (map (\<lambda>i. fmin (fmul (r ! i) (a ! i))
                                       (fmul (clamp (r ! i) (1 - c) (1 + c)) (a ! i)))
                        [0..<length a]))
                (Finite (real (length a))))"

text \<open>The standardization with a standard deviation \<open>s\<close>.\<close>

definition spec_standardize :: "real \<Rightarrow> real list \<Rightarrow> real list" where
  "spec_standardize s a = map (\<lambda>x. (x - mean_list a) / (s + 1 / 10 ^ 8)) a"

definition spec_huber_loss :: "real list \<Rightarrow> real list \<Rightarrow> real" where
  "spec_huber_loss p r =
     sum_list (map (\<lambda>i. if \<bar>p ! i - r ! i\<bar> \<le> 1 then (p ! i - r ! i)\<^sup>2 / 2
                         else \<bar>p ! i - r ! i\<bar> - 1 / 2) [0..<length r]) / real (length r)"

text \<open>
  Concrete collaborators for the examples: an instance is a real number, which is also
  its reward; the policy takes two decoding steps of log-likelihood 0 and has entropy 1;
  the critic predicts the reward scaled by the parameter; the gradient is the loss (0
  when the loss is not finite), the clipping clamps it, the optimizer subtracts it; the
  sampler keeps the order.
\<close>

definition toy :: "(real list, real, nat, real, real) collaborators" where
  "toy =
     \<lparr>env_reset = (\<lambda>b. b),
      policy = (\<lambda>\<theta> phase td.
        \<lparr>ro_actions = map (\<lambda>x. 0) td, ro_log_likelihood = map (\<lambda>x. 0) td, ro_reward = td\<rparr>),
      policy_score = (\<lambda>\<theta> rows.
        \<lparr>so_log_likelihood = map (\<lambda>r. [0, 0]) rows, so_entropy = map (\<lambda>r. 1) rows,
         so_reward = map reward rows\<rparr>),
      critic = (\<lambda>\<theta> rows. map (\<lambda>r. \<theta> * reward r) rows),
      manual_backward = (\<lambda>cfg \<theta> rows l. case data l of Finite x \<Rightarrow> x | _ \<Rightarrow> 0),
      clip_gradients = (\<lambda>c g. min (max g (- c)) c),
      opt_step = (\<lambda>\<theta> g. \<theta> - g),
      randperm = (\<lambda>k n. [0..<n])\<rparr>"

definition toy_rows :: "(real, nat) row list" where
  "toy_rows = [\<lparr>state = 1, logprobs = 0, reward = 1, action = 0\<rparr>,
               \<lparr>state = 3, logprobs = 0, reward = 3, action = 0\<rparr>]"

text \<open>A minibatch of one instance, and one whose stored log-probability is far below
  the log-likelihood 0 that the policy of the examples gives now.\<close>

definition one_row :: "(real, nat) row list" where
  "one_row = [\<lparr>state = 1, logprobs = 0, reward = 1, action = 0\<rparr>]"

definition far_rows :: "(real, nat) row list" where
  "far_rows = [\<lparr>state = 1, logprobs = - 200, reward = 1, action = 0\<rparr>]"

text \<open>The double nearest to one third.\<close>

definition third :: real where
  "third = 6004799503160661 / 2 ^ 54"

section \<open>Properties\<close>

subsection \<open>Validation of the hyperparameters\<close>

lemma PPO_init_fraction_range:
  "PPO_init args = (cfg, ws) \<Longrightarrow> mini_batch_size cfg = PyFloat f \<Longrightarrow> 0 < f \<and> f \<le> 1"
  by (auto simp: PPO_init_def check_fraction_def check_integer_def
      default_mini_batch_fraction_def split: py_value.splits if_splits prod.splits)

lemma PPO_init_integer_range:
  "PPO_init args = (cfg, ws) \<Longrightarrow> mini_batch_size cfg = PyInt i \<Longrightarrow> 0 < i"
  by (auto simp: PPO_init_def check_fraction_def check_integer_def
      default_mini_batch_size_def split: py_value.splits if_splits prod.splits)

lemma PPO_init_default_args: "PPO_init default_args = (default_args, [])"
  by (simp add: PPO_init_def default_args_def check_fraction_def check_integer_def)

text \<open>
  Claim C6. At construction a float \<open>mini_batch_size\<close> outside \<open>(0, 1]\<close> is replaced by
  the default fraction 0.25 with a warning, an integer \<open>\<le> 0\<close> by the default integer
  128 with a warning; no error is raised (\<open>PPO_init\<close> always returns a configuration),
  and nothing else is checked: every other field, and every other value of
  \<open>mini_batch_size\<close>, is stored as given, without a warning.
\<close>

theorem init_replaces_invalid_mini_batch_size:
  "(f \<le> 0 \<or> 1 < f \<longrightarrow>
      PPO_init (args\<lparr>mini_batch_size := PyFloat f\<rparr>) =
        (args\<lparr>mini_batch_size := PyFloat 0.25\<rparr>, [Warning (PyFloat f) (PyFloat 0.25)])) \<and>
   (0 < f \<and> f \<le> 1 \<longrightarrow>
      PPO_init (args\<lparr>mini_batch_size := PyFloat f\<rparr>) =
        (args\<lparr>mini_batch_size := PyFloat f\<rparr>, [])) \<and>
   (i \<le> 0 \<longrightarrow>
      PPO_init (args\<lparr>mini_batch_size := PyInt i\<rparr>) =
        (args\<lparr>mini_batch_size := PyInt 128\<rparr>, [Warning (PyInt i) (PyInt 128)])) \<and>
   (0 < i \<longrightarrow>
      PPO_init (args\<lparr>mini_batch_size := PyInt i\<rparr>) =
        (args\<lparr>mini_batch_size := PyInt i\<rparr>, [])) \<and>
   PPO_init (args\<lparr>mini_batch_size := PyOther\<rparr>) = (args\<lparr>mini_batch_size := PyOther\<rparr>, [])"
  by (cases args)
    (simp add: PPO_init_def check_fraction_def check_integer_def
      default_mini_batch_fraction_def default_mini_batch_size_def)

theorem init_replaces_invalid_mini_batch_size_witness:
  "(1::real) < 3 / 2 \<and>
   PPO_init (default_args\<lparr>mini_batch_size := PyFloat (3 / 2)\<rparr>) =
     (default_args\<lparr>mini_batch_size := PyFloat 0.25\<rparr>,
      [Warning (PyFloat (3 / 2)) (PyFloat 0.25)]) \<and>
   (0::int) \<le> 0 \<and>
   PPO_init (default_args\<lparr>mini_batch_size := PyInt 0\<rparr>) =
     (default_args\<lparr>mini_batch_size := PyInt 128\<rparr>, [Warning (PyInt 0) (PyInt 128)]) \<and>
   (0::real) < 1 / 2 \<and> (1::real) / 2 \<le> 1 \<and>
   PPO_init (default_args\<lparr>mini_batch_size := PyFloat (1 / 2)\<rparr>) =
     (default_args\<lparr>mini_batch_size := PyFloat (1 / 2)\<rparr>, []) \<and>
   (0::int) < 64 \<and>
   PPO_init (default_args\<lparr>mini_batch_size := PyInt 64\<rparr>) =
     (default_args\<lparr>mini_batch_size := PyInt 64\<rparr>, [])"
  using init_replaces_invalid_mini_batch_size [of "3 / 2" default_args 0]
    init_replaces_invalid_mini_batch_size [of "1 / 2" default_args 64]
  by simp

subsection \<open>The size of a minibatch\<close>

lemma clamp_mini_batch_size_le: "clamp_mini_batch_size m n \<le> int n"
  by (simp add: clamp_mini_batch_size_def)

text \<open>Rounding to a double: integers are kept, the sign is kept, and a number with a
  significand of at most 53 bits is not changed.\<close>

lemma round_even_of_int [simp]: "round_even (of_int z) = z"
  by (simp add: round_even_def)

lemma round_even_nonneg: "0 \<le> x \<Longrightarrow> 0 \<le> round_even x"
  by (auto simp: round_even_def)

lemma round_double_nonneg: "0 \<le> x \<Longrightarrow> 0 \<le> round_double x"
  by (simp add: round_double_def round_even_nonneg)

lemma floor_log2_eq:
  assumes "2 powr of_int e \<le> x" and "x < 2 powr (of_int e + 1)"
  shows "\<lfloor>log 2 x\<rfloor> = e"
proof -
  have pos: "0 < x" using assms(1) by (smt (verit) powr_gt_zero)
  have "of_int e \<le> log 2 x" using assms(1) pos by (simp add: le_log_iff)
  moreover have "log 2 x < of_int e + 1" using assms(2) pos by (simp add: log_less_iff)
  ultimately show ?thesis by linarith
qed

lemma round_double_representable:
  assumes "\<bar>m\<bar> < 2 ^ 53"
  shows "round_double (of_int m * 2 powr of_int i) = of_int m * 2 powr of_int i"
proof (cases "m = 0")
  case True
  then show ?thesis by (simp add: round_double_def)
next
  case False
  let ?x = "of_int m * 2 powr of_int i :: real"
  let ?e = "\<lfloor>log 2 \<bar>?x\<bar>\<rfloor>"
  have x0: "?x \<noteq> 0" using False by simp
  have absx: "\<bar>?x\<bar> = of_int \<bar>m\<bar> * 2 powr of_int i" by (simp add: abs_mult)
  have "of_int \<bar>m\<bar> < (2::real) ^ 53"
    using assms by (metis of_int_less_numeral_power_cancel_iff)
  then have "\<bar>?x\<bar> < 2 ^ 53 * 2 powr of_int i" unfolding absx by simp
  also have "\<dots> = 2 powr (53 + of_int i)" by (simp add: powr_add)
  finally have "log 2 \<bar>?x\<bar> < 53 + of_int i"
    using x0 by (simp add: log_less_iff)
  then have e: "?e \<le> 52 + i" by linarith
  define k where "k = nat (52 + i - ?e)"
  have k: "of_int i - (of_int ?e - 52) = real k" using e by (simp add: k_def)
  have "?x / 2 powr (of_int ?e - 52) = of_int m * 2 powr (of_int i - (of_int ?e - 52))"
    by (simp add: powr_diff)
  also have "\<dots> = of_int m * 2 ^ k" unfolding k by (simp add: powr_realpow)
  also have "\<dots> = of_int (m * 2 ^ k)" by simp
  finally have q: "?x / 2 powr (of_int ?e - 52) = of_int (m * 2 ^ k)" .
  have "round_double ?x = of_int (m * 2 ^ k) * 2 powr (of_int ?e - 52)"
    using x0 unfolding round_double_def q round_even_of_int by simp
  also have "\<dots> = of_int m * (2 powr (real k) * 2 powr (of_int ?e - 52))"
    by (simp add: powr_realpow)
  also have "2 powr (real k) * 2 powr (of_int ?e - 52) = 2 powr of_int i"
    unfolding powr_add [symmetric] k [symmetric] by simp
  finally show ?thesis .
qed

lemma round_double_quarter:
  assumes "n < 2 ^ 53"
  shows "round_double (real n * 0.25) = real n * 0.25"
proof -
  have p: "2 powr of_int (- 2) = (1 / 4 :: real)"
    using powr_realpow [of 2 2] by (simp add: powr_minus_divide)
  have x: "real n * 0.25 = of_int (int n) * 2 powr of_int (- 2)"
    unfolding p by simp
  have "\<bar>int n\<bar> < 2 ^ 53" using assms by simp
  then show ?thesis unfolding x by (rule round_double_representable)
qed

lemma round_double_one: "round_double 1 = 1"
  using round_double_representable [of 1 0] by simp

text \<open>
  The rounding matters: three times the double nearest to one third is below 1, but
  the product rounds to 1, and the size of a minibatch is 1 and not 0.
\<close>

lemma round_double_three_thirds: "3 * third < 1 \<and> round_double (3 * third) = 1"
proof -
  have e: "\<lfloor>log 2 \<bar>3 * third\<bar>\<rfloor> = - 1"
    by (rule floor_log2_eq) (simp_all add: third_def powr_minus_divide)
  have p: "2 powr (- 53) = 1 / (2::real) ^ 53"
    by (simp add: powr_minus_divide powr_realpow [symmetric])
  have q: "3 * third / 2 powr (of_int (- 1) - 52) = 9007199254740991 + 1 / 2"
    by (simp add: p third_def)
  have f: "\<lfloor>9007199254740991 + 1 / 2 :: real\<rfloor> = 9007199254740991" by linarith
  have "round_even (9007199254740991 + 1 / 2) = 9007199254740992"
    by (simp add: round_even_def f)
  then have "round_double (3 * third) = 1"
    unfolding round_double_def e q by (simp add: p third_def)
  then show ?thesis by (simp add: third_def)
qed

lemma three_thirds_size:
  "infer_mini_batch_size (default_args\<lparr>mini_batch_size := PyFloat third\<rparr>) 3 = Inr 1"
  using round_double_three_thirds by (simp add: infer_mini_batch_size_def py_int_def)

lemma small_size_zero:
  "infer_mini_batch_size default_args 2 = Inr 0 \<and> round_double (real (2::nat) * 0.25) < 1"
proof -
  have r: "round_double (real (2::nat) * 0.25) = real (2::nat) * 0.25"
    by (rule round_double_quarter) simp
  have z: "py_int (real (2::nat) * 0.25) = 0"
    by (simp add: py_int_def)
  have "infer_mini_batch_size default_args 2 =
      Inr (py_int (round_double (real (2::nat) * 0.25)))"
    by (simp add: infer_mini_batch_size_def default_args_def)
  then have "infer_mini_batch_size default_args 2 = Inr 0"
    by (simp only: r z)
  moreover have "round_double (real (2::nat) * 0.25) < 1"
    by (simp only: r) simp
  ultimately show ?thesis by simp
qed

text \<open>
  Claim C9. With a fraction that the validation of \<open>__init__\<close> accepted, the size
  \<open>int(batch_size * fraction)\<close> is 0 whenever the product \<open>batch_size * fraction\<close>,
  the Python float that line 141 computes, is below 1, and the clamping to the batch
  size leaves it 0: the size of a minibatch in a step need not be positive. The default
  fraction 0.25 with a batch of 2 instances is an instance.
\<close>

theorem fraction_rounds_down_to_zero:
  assumes "PPO_init args = (cfg, ws)" and "mini_batch_size cfg = PyFloat f"
    and "round_double (real n * f) < 1"
  shows "infer_mini_batch_size cfg n = Inr 0 \<and> clamp_mini_batch_size 0 n = 0"
proof -
  have "0 < f" using PPO_init_fraction_range [OF assms(1,2)] by simp
  then have "0 \<le> real n * f" by simp
  then have nonneg: "0 \<le> round_double (real n * f)" by (rule round_double_nonneg)
  with assms(3) have "\<lfloor>round_double (real n * f)\<rfloor> = 0" by linarith
  with nonneg show ?thesis
    using assms(2)
    by (simp add: infer_mini_batch_size_def py_int_def clamp_mini_batch_size_def)
qed

theorem fraction_rounds_down_to_zero_witness:
  "PPO_init default_args = (default_args, []) \<and>
   mini_batch_size default_args = PyFloat 0.25 \<and>
   round_double (real (2::nat) * 0.25) < 1 \<and>
   infer_mini_batch_size default_args 2 = Inr 0 \<and> clamp_mini_batch_size 0 2 = 0"
proof -
  have b: "mini_batch_size default_args = PyFloat 0.25" by (simp add: default_args_def)
  have c: "round_double (real (2::nat) * 0.25) < 1"
    using small_size_zero by simp
  show ?thesis
    using fraction_rounds_down_to_zero [OF PPO_init_default_args b c] PPO_init_default_args b c
    by simp
qed

subsection \<open>The data loader\<close>

lemma chunks_Nil [simp]: "chunks m [] = []"
  by (simp add: chunks.simps)

lemma chunks_Cons:
  "0 < m \<Longrightarrow> chunks m (x # xs) = take m (x # xs) # chunks m (drop m (x # xs))"
  by (subst chunks.simps) simp

lemma concat_chunks: "0 < m \<Longrightarrow> concat (chunks m xs) = xs"
proof (induction m xs rule: chunks.induct)
  case (1 m xs)
  show ?case
  proof (cases "xs = []")
    case True
    then show ?thesis by simp
  next
    case False
    with 1 show ?thesis by (subst chunks.simps) simp
  qed
qed

lemma chunks_whole: "xs \<noteq> [] \<Longrightarrow> chunks (length xs) xs = [xs]"
  by (subst chunks.simps) simp

lemma chunks_bounds:
  "0 < m \<Longrightarrow> c \<in> set (chunks m xs) \<Longrightarrow> c \<noteq> [] \<and> length c \<le> m"
proof (induction m xs rule: chunks.induct)
  case (1 m xs)
  show ?case
  proof (cases "xs = []")
    case True
    with 1 show ?thesis by simp
  next
    case False
    from 1(3) False 1(2) have "c = take m xs \<or> c \<in> set (chunks m (drop m xs))"
      by (subst (asm) chunks.simps) auto
    with 1 False show ?thesis by auto
  qed
qed

text \<open>
  With a positive size the minibatches of one epoch are a partition of the batch: put
  together they are the batch, reordered by the permutation. With the size of the whole
  batch there is one minibatch.
\<close>

lemma batches_cover:
  assumes "DataLoader ds m = Inr dl" and "mset perm = mset [0..<length ds]"
  shows "mset (concat (batches dl perm)) = mset ds"
proof -
  from assms(1) have dl: "dataset dl = ds" "0 < batch_size dl"
    by (auto simp: DataLoader_def split: if_splits)
  have "concat (batches dl perm) = map (\<lambda>i. ds ! i) (concat (chunks (batch_size dl) perm))"
    by (simp add: batches_def dl map_concat)
  also have "\<dots> = map (\<lambda>i. ds ! i) perm"
    using dl by (simp add: concat_chunks)
  finally have "mset (concat (batches dl perm)) = image_mset (\<lambda>i. ds ! i) (mset perm)"
    by simp
  also have "\<dots> = mset (map (\<lambda>i. ds ! i) [0..<length ds])"
    by (simp only: assms(2) mset_map)
  also have "map (\<lambda>i. ds ! i) [0..<length ds] = ds"
    by (rule map_nth)
  finally show ?thesis .
qed

lemma batches_single:
  assumes "DataLoader ds (int (length ds)) = Inr dl" and "length perm = length ds"
  shows "batches dl perm = [map (\<lambda>i. ds ! i) perm]"
proof -
  from assms(1) have dl: "dataset dl = ds" "batch_size dl = length ds" "ds \<noteq> []"
    by (auto simp: DataLoader_def split: if_splits)
  from dl(3) assms(2) have "perm \<noteq> []" by auto
  then have "chunks (length perm) perm = [perm]" by (rule chunks_whole)
  then have "chunks (batch_size dl) perm = [perm]" by (simp add: dl assms(2))
  then show ?thesis by (simp add: batches_def dl)
qed

text \<open>A training step under the default configuration with fewer than 4 instances.\<close>

lemma small_batch_raises:
  assumes "length (ro_actions (policy C (params s) ''train'' (env_reset C batch))) < 4"
  shows "shared_step (fst (PPO_init default_args)) metric_names C s batch ''train'' =
           Inl (ValueError ''batch_size should be a positive integer value'')"
proof -
  let ?n = "length (ro_actions (policy C (params s) ''train'' (env_reset C batch)))"
  have cfg: "mini_batch_size (fst (PPO_init default_args)) = PyFloat 0.25"
    by (simp add: PPO_init_default_args) (simp add: default_args_def)
  from assms have "?n < 2 ^ 53" by simp
  then have r: "round_double (real ?n * 0.25) = real ?n * 0.25"
    by (rule round_double_quarter)
  from assms have "real ?n * 0.25 < 1" by simp
  moreover have "0 \<le> real ?n * 0.25" by simp
  ultimately have "\<lfloor>real ?n * 0.25\<rfloor> = 0" by linarith
  then have z: "py_int (real ?n * 0.25) = 0"
    by (simp add: py_int_def)
  have "infer_mini_batch_size (fst (PPO_init default_args)) ?n =
      Inr (py_int (round_double (real ?n * 0.25)))"
    by (simp add: infer_mini_batch_size_def cfg)
  then have "infer_mini_batch_size (fst (PPO_init default_args)) ?n = Inr 0"
    by (simp only: r z)
  then show ?thesis
    by (simp add: shared_step_def Let_def clamp_mini_batch_size_def DataLoader_def)
qed

text \<open>
  Claim C4. The claim asks that for every valid configuration and every rollout batch
  the size of a minibatch is at most the size of the batch and the minibatches of each
  epoch partition the batch. The size is at most the size of the batch
  (\<open>clamp_mini_batch_size_le\<close>) and a positive size gives a partition
  (\<open>batches_cover\<close>, \<open>batches_single\<close>), but the size can be 0: under the default
  configuration, which \<open>__init__\<close> accepts, a training batch of two instances gets the
  size \<open>int(2 * 0.25) = 0\<close>, the data loader rejects it, and the step ends in a
  \<open>ValueError\<close> with no minibatch at all.
\<close>

theorem default_fraction_small_batch_raises:
  "PPO_init default_args = (default_args, []) \<and>
   infer_mini_batch_size default_args 2 = Inr 0 \<and>
   shared_step (fst (PPO_init default_args)) (\<lambda>phase. train_metrics) toy
     \<lparr>params = 0, opt_steps = 0\<rparr> [1, 3] ''train'' =
     Inl (ValueError ''batch_size should be a positive integer value'')"
proof -
  have "length (ro_actions (policy toy (params \<lparr>params = 0::real, opt_steps = 0\<rparr>) ''train''
          (env_reset toy [1, 3]))) < 4"
    by (simp add: toy_def)
  then have "shared_step (fst (PPO_init default_args)) (\<lambda>phase. train_metrics) toy
     \<lparr>params = 0, opt_steps = 0\<rparr> [1, 3] ''train'' =
     Inl (ValueError ''batch_size should be a positive integer value'')"
    by (rule small_batch_raises)
  moreover have "infer_mini_batch_size default_args 2 = Inr 0"
    using small_size_zero by simp
  ultimately show ?thesis by (simp add: PPO_init_default_args)
qed

text \<open>
  Claim C7. A \<open>mini_batch_size\<close> that is neither an integer nor a float passes
  \<open>__init__\<close> as it is, without a warning, and every training step then ends in the
  \<open>ValueError\<close> of line 145: nothing is substituted and the step returns no result.
\<close>

theorem unsupported_mini_batch_size_type_raises:
  assumes "mini_batch_size args = PyOther"
  shows "PPO_init args = (args, []) \<and>
         shared_step (fst (PPO_init args)) metric_names C s batch ''train'' =
           Inl (ValueError ''mini_batch_size must be an integer or a float.'')"
proof -
  have init: "PPO_init args = (args, [])"
    using assms by (cases args) (simp add: PPO_init_def check_fraction_def check_integer_def)
  show ?thesis
    using assms by (simp add: init shared_step_def infer_mini_batch_size_def Let_def)
qed

theorem unsupported_mini_batch_size_type_raises_witness:
  "mini_batch_size (default_args\<lparr>mini_batch_size := PyOther\<rparr>) = PyOther \<and>
   PPO_init (default_args\<lparr>mini_batch_size := PyOther\<rparr>) =
     (default_args\<lparr>mini_batch_size := PyOther\<rparr>, []) \<and>
   shared_step (fst (PPO_init (default_args\<lparr>mini_batch_size := PyOther\<rparr>)))
     (\<lambda>phase. train_metrics) toy \<lparr>params = 0, opt_steps = 0\<rparr> [1, 3] ''train'' =
     Inl (ValueError ''mini_batch_size must be an integer or a float.'')"
proof -
  have h: "mini_batch_size (default_args\<lparr>mini_batch_size := PyOther\<rparr>) = PyOther"
    by simp
  show ?thesis
    using unsupported_mini_batch_size_type_raises [OF h] h by simp
qed

subsection \<open>Floating-point values\<close>

lemma fmul_one [simp]: "fmul (Finite 1) a = a"
  by (cases a) (simp_all add: signed_inf_def)

lemma fmin_same [simp]: "fmin a a = a"
  by (cases a) simp_all

lemma clamp_Finite [simp]: "clamp (Finite x) lo hi = Finite (min (max x lo) hi)"
  by (simp add: clamp_def)

lemma clamp_PosInf [simp]: "clamp PosInf lo hi = Finite hi"
  by (simp add: clamp_def)

lemma fsum_Finite [simp]: "fsum (map Finite xs) = Finite (sum_list xs)"
  by (induction xs) simp_all

lemma fmean_Finite: "xs \<noteq> [] \<Longrightarrow> fmean (map Finite xs) = Finite (mean_list xs)"
  by (simp add: fmean_def mean_list_def)

lemma fexp_zero [simp]: "fexp 0 = Finite 1"
  by (simp add: fexp_def float32_overflow_def)

lemma fexp_overflow: "fexp 200 = PosInf"
proof -
  have "(2::real) \<le> exp 1"
    using exp_ge_add_one_self [of "1::real"] by simp
  then have "(2::real) ^ 200 \<le> exp 1 ^ 200"
    by (intro power_mono) simp_all
  also have "exp 1 ^ 200 = exp (200::real)"
    using exp_of_nat_mult [of 200 "1::real"] by simp
  finally have "(2::real) ^ 200 \<le> exp 200" .
  moreover have "float32_overflow \<le> 2 ^ 200"
    by (simp add: float32_overflow_def)
  ultimately have "float32_overflow \<le> exp 200" by linarith
  then show ?thesis by (simp add: fexp_def)
qed

subsection \<open>The losses of a minibatch\<close>

lemmas tensor_ops =
  lift1_def lift2_def detach_def t_sum_last_def torch_exp_def t_sub_def t_mul_def
  torch_min_def torch_clamp_def t_mean_def t_fmean_def t_std_def finite_values_def
  finite_value_def t_sub_scalar_def t_div_scalar_def s_neg_def s_add_def s_sub_def
  s_add_float_def float_mul_def F_huber_loss_def

lemma map2_nth:
  "length xs = length ys \<Longrightarrow> map2 f xs ys = map (\<lambda>i. f (xs ! i) (ys ! i)) [0..<length ys]"
  by (rule nth_equalityI) simp_all

lemma ratio_data:
  "data (ratio (minibatch_losses cfg C \<theta> sub_td)) =
     map2 (\<lambda>l old. fexp (sum_list l - old))
       (so_log_likelihood (policy_score C \<theta> sub_td)) (map logprobs sub_td)"
  by (simp add: minibatch_losses_def Let_def tensor_ops zip_map1 zip_map2
      case_prod_unfold comp_def)

lemma length_normalize: "length (data (normalize cfg a)) = length (data a)"
  by (simp add: normalize_def tensor_ops)

lemma adv_length:
  "length (data (adv (minibatch_losses cfg C \<theta> sub_td))) =
     min (length sub_td) (length (critic C \<theta> sub_td))"
  by (simp add: minibatch_losses_def Let_def length_normalize) (simp add: tensor_ops)

lemma adv_graph: "graph (adv (minibatch_losses cfg C \<theta> sub_td)) = {}"
  by (simp add: minibatch_losses_def Let_def normalize_def tensor_ops)

lemma adv_data:
  "data (adv (minibatch_losses cfg C \<theta> sub_td)) =
     (if normalize_adv cfg
      then map (\<lambda>x. fdiv
                  (Finite (x - mean_list (map2 (-) (map reward sub_td) (critic C \<theta> sub_td))))
                  (fadd (std_list (map2 (-) (map reward sub_td) (critic C \<theta> sub_td)))
                        (Finite (1 / 10 ^ 8))))
             (map2 (-) (map reward sub_td) (critic C \<theta> sub_td))
      else map Finite (map2 (-) (map reward sub_td) (critic C \<theta> sub_td)))"
  by (simp add: minibatch_losses_def Let_def normalize_def tensor_ops)

lemma surrogate_data:
  "data (surrogate_loss (minibatch_losses cfg C \<theta> sub_td)) =
     fneg (fmean (map2 fmin
         (map2 fmul (data (ratio (minibatch_losses cfg C \<theta> sub_td)))
                    (data (adv (minibatch_losses cfg C \<theta> sub_td))))
         (map2 fmul (map (\<lambda>x. clamp x (1 - clip_range cfg) (1 + clip_range cfg))
                       (data (ratio (minibatch_losses cfg C \<theta> sub_td))))
                    (data (adv (minibatch_losses cfg C \<theta> sub_td))))))"
  by (simp add: minibatch_losses_def Let_def tensor_ops)

lemma surrogate_graph:
  "graph (surrogate_loss (minibatch_losses cfg C \<theta> sub_td)) = {PolicyParams}"
  by (simp add: minibatch_losses_def Let_def normalize_def tensor_ops)

lemma value_loss_data:
  "data (value_loss (minibatch_losses cfg C \<theta> sub_td)) =
     mean_list (map2 huber (critic C \<theta> sub_td) (map reward sub_td))"
  by (simp add: minibatch_losses_def Let_def tensor_ops)

lemma entropy_data:
  "data (entropy (minibatch_losses cfg C \<theta> sub_td)) = so_entropy (policy_score C \<theta> sub_td)"
  by (simp add: minibatch_losses_def Let_def)

lemma loss_data:
  "data (loss (minibatch_losses cfg C \<theta> sub_td)) =
     fsub (fadd (data (surrogate_loss (minibatch_losses cfg C \<theta> sub_td)))
                (Finite (vf_lambda cfg * data (value_loss (minibatch_losses cfg C \<theta> sub_td)))))
          (Finite (entropy_lambda cfg
                   * mean_list (data (entropy (minibatch_losses cfg C \<theta> sub_td)))))"
  by (simp add: minibatch_losses_def Let_def tensor_ops)

lemma surrogate_terms:
  assumes "length r = length a"
  shows "map2 fmin (map2 fmul r a) (map2 fmul (map (\<lambda>x. clamp x lo hi) r) a) =
         map (\<lambda>i. fmin (fmul (r ! i) (a ! i)) (fmul (clamp (r ! i) lo hi) (a ! i)))
           [0..<length a]"
  using assms by (intro nth_equalityI) simp_all

text \<open>The examples: the shapes, the ratio and the advantage of the two rows.\<close>

lemma toy_well_shaped: "well_shaped toy \<theta> toy_rows"
  by (simp add: well_shaped_def toy_def toy_rows_def)

lemma toy_ratio: "data (ratio (minibatch_losses cfg toy \<theta> toy_rows)) = [Finite 1, Finite 1]"
  by (simp add: ratio_data toy_def toy_rows_def)

lemma toy_adv:
  "\<not> normalize_adv cfg \<Longrightarrow>
     data (adv (minibatch_losses cfg toy \<theta> toy_rows)) = [Finite (1 - \<theta>), Finite (3 - \<theta> * 3)]"
  by (simp add: adv_data toy_def toy_rows_def)

lemma upt_2: "[0..<2] = [0, Suc 0]"
  by (simp add: upt_rec)

text \<open>
  Claim C1. For every minibatch the ratio is, instance by instance,
  \<open>exp(new_log_prob - old_log_prob)\<close>, the new log-probability being the sum of the
  log-likelihoods that the current policy gives to the decoding steps of the stored
  actions and the old one the stored \<open>logprobs\<close>; and the surrogate loss is the negated
  mean over the instances of \<open>min(ratio * adv, clamp(ratio, 1 - clip_range,
  1 + clip_range) * adv)\<close>, only the second term clamping the ratio.
\<close>

theorem surrogate_loss_is_clipped_objective:
  assumes "well_shaped C \<theta> sub_td"
  shows "data (ratio (minibatch_losses cfg C \<theta> sub_td)) =
           map (\<lambda>i. spec_ratio (sum_list (so_log_likelihood (policy_score C \<theta> sub_td) ! i))
                                 (logprobs (sub_td ! i))) [0..<length sub_td] \<and>
         data (surrogate_loss (minibatch_losses cfg C \<theta> sub_td)) =
           spec_surrogate_loss (clip_range cfg)
             (data (ratio (minibatch_losses cfg C \<theta> sub_td)))
             (data (adv (minibatch_losses cfg C \<theta> sub_td)))"
proof -
  let ?v = "minibatch_losses cfg C \<theta> sub_td"
  from assms have ll: "length (so_log_likelihood (policy_score C \<theta> sub_td)) = length sub_td"
    and cr: "length (critic C \<theta> sub_td) = length sub_td"
    by (simp_all add: well_shaped_def)
  have r: "data (ratio ?v) =
      map (\<lambda>i. spec_ratio (sum_list (so_log_likelihood (policy_score C \<theta> sub_td) ! i))
                            (logprobs (sub_td ! i))) [0..<length sub_td]"
    unfolding ratio_data using ll by (intro nth_equalityI) (simp_all add: spec_ratio_def)
  have "length (data (ratio ?v)) = length (data (adv ?v))"
    by (simp add: r adv_length cr)
  then have "data (surrogate_loss ?v) =
      spec_surrogate_loss (clip_range cfg) (data (ratio ?v)) (data (adv ?v))"
    unfolding surrogate_data spec_surrogate_loss_def
    by (simp add: surrogate_terms fmean_def)
  with r show ?thesis by simp
qed

theorem surrogate_loss_is_clipped_objective_witness:
  "well_shaped toy 0 toy_rows \<and>
   data (ratio (minibatch_losses default_args toy 0 toy_rows)) = [Finite 1, Finite 1] \<and>
   data (adv (minibatch_losses default_args toy 0 toy_rows)) = [Finite 1, Finite 3] \<and>
   data (surrogate_loss (minibatch_losses default_args toy 0 toy_rows)) =
     spec_surrogate_loss (1 / 5) [Finite 1, Finite 1] [Finite 1, Finite 3] \<and>
   spec_surrogate_loss (1 / 5) [Finite 1, Finite 1] [Finite 1, Finite 3] = Finite (- 2)"
proof -
  have n: "\<not> normalize_adv default_args" by (simp add: default_args_def)
  have c: "clip_range default_args = 1 / 5" by (simp add: default_args_def)
  have e: "spec_surrogate_loss (1 / 5) [Finite 1, Finite 1] [Finite 1, Finite 3] = Finite (- 2)"
    by (simp add: spec_surrogate_loss_def upt_2)
  show ?thesis
    using surrogate_loss_is_clipped_objective [OF toy_well_shaped [of 0], where cfg = default_args]
      toy_well_shaped [of 0] toy_ratio [of default_args 0] toy_adv [OF n, of 0] c e
    by simp
qed

subsection \<open>The advantage\<close>

lemma std_list_single: "std_list [x] = NaN"
  by (simp add: std_list_def)

lemma std_list_Finite:
  assumes "std_list xs = Finite s"
  shows "2 \<le> length xs"
    and "s = sqrt (sum_list (map (\<lambda>x. (x - mean_list xs)\<^sup>2) xs) / (real (length xs) - 1))"
    and "0 \<le> s"
proof -
  show n: "2 \<le> length xs"
    using assms by (simp add: std_list_def split: if_splits)
  show s: "s = sqrt (sum_list (map (\<lambda>x. (x - mean_list xs)\<^sup>2) xs) / (real (length xs) - 1))"
    using assms by (simp add: std_list_def split: if_splits)
  have "0 \<le> sum_list (map (\<lambda>x. (x - mean_list xs)\<^sup>2) xs)"
    by (rule sum_list_nonneg) auto
  moreover have "0 < real (length xs) - 1" using n by simp
  ultimately show "0 \<le> s" unfolding s by simp
qed

lemma std_list_two_or_more:
  "2 \<le> length xs \<Longrightarrow>
     std_list xs =
       Finite (sqrt (sum_list (map (\<lambda>x. (x - mean_list xs)\<^sup>2) xs) / (real (length xs) - 1)))"
  by (simp add: std_list_def)

lemma sum_list_shift_scale:
  "sum_list (map (\<lambda>x. (x - m) / d) xs) = (sum_list xs - real (length xs) * m) / (d::real)"
  by (induction xs) (simp_all add: add_divide_distrib diff_divide_distrib algebra_simps)

lemma mean_standardize:
  assumes "xs \<noteq> []"
  shows "mean_list (spec_standardize s xs) = 0"
proof -
  have "real (length xs) \<noteq> 0" using assms by simp
  then have "sum_list xs - real (length xs) * mean_list xs = 0"
    by (simp add: mean_list_def)
  then show ?thesis
    by (simp add: spec_standardize_def mean_list_def [of "map _ _"] sum_list_shift_scale comp_def)
qed

lemma sum_list_scaled_squares:
  "sum_list (map (\<lambda>x. ((x - m) / d)\<^sup>2) xs) =
     sum_list (map (\<lambda>x. (x - m)\<^sup>2) xs) / (d::real)\<^sup>2"
  by (induction xs) (simp_all add: power_divide add_divide_distrib)

lemma std_standardize:
  assumes "std_list xs = Finite s"
  shows "std_list (spec_standardize s xs) = Finite (s / (s + 1 / 10 ^ 8))"
proof -
  let ?d = "s + 1 / 10 ^ 8"
  let ?S = "sum_list (map (\<lambda>x. (x - mean_list xs)\<^sup>2) xs)"
  note f = std_list_Finite [OF assms]
  have ne: "xs \<noteq> []" using f(1) by auto
  have d: "0 < ?d" using f(3) by (simp add: add_nonneg_pos)
  have len: "2 \<le> length (spec_standardize s xs)"
    using f(1) by (simp add: spec_standardize_def)
  have "sqrt (sum_list (map (\<lambda>x. (x - mean_list (spec_standardize s xs))\<^sup>2)
            (spec_standardize s xs)) / (real (length (spec_standardize s xs)) - 1)) =
        sqrt (sum_list (map (\<lambda>x. ((x - mean_list xs) / ?d)\<^sup>2) xs) / (real (length xs) - 1))"
    unfolding mean_standardize [OF ne]
    by (simp add: spec_standardize_def comp_def)
  also have "\<dots> = sqrt (?S / (real (length xs) - 1) / ?d\<^sup>2)"
    by (simp only: sum_list_scaled_squares) (simp add: field_simps)
  also have "\<dots> = sqrt (?S / (real (length xs) - 1)) / sqrt (?d\<^sup>2)"
    by (rule real_sqrt_divide)
  also have "sqrt (?d\<^sup>2) = ?d"
    using d by simp
  finally show ?thesis
    unfolding std_list_two_or_more [OF len] f(2) [symmetric] by simp
qed

text \<open>
  The advantage is detached, and on a minibatch of two or more instances, where the
  standard deviation \<open>s\<close> is finite, the normalization standardizes it: the mean becomes
  0 and the standard deviation \<open>s / (s + 1e-8)\<close>.
\<close>

lemma advantage_detached:
  "graph (adv (minibatch_losses cfg C \<theta> sub_td)) = {} \<and>
   CriticParams \<notin> graph (surrogate_loss (minibatch_losses cfg C \<theta> sub_td))"
  by (simp add: adv_graph surrogate_graph)

lemma advantage_plain:
  assumes "well_shaped C \<theta> sub_td" and "\<not> normalize_adv cfg"
  shows "data (adv (minibatch_losses cfg C \<theta> sub_td)) =
           map (\<lambda>i. Finite (reward (sub_td ! i) - critic C \<theta> sub_td ! i)) [0..<length sub_td]"
proof -
  from assms(1) have cr: "length (critic C \<theta> sub_td) = length sub_td"
    by (simp add: well_shaped_def)
  show ?thesis
    unfolding adv_data using assms(2) cr by (intro nth_equalityI) simp_all
qed

lemma advantage_standardized:
  assumes "well_shaped C \<theta> sub_td" and "normalize_adv cfg"
    and "std_list (map2 (-) (map reward sub_td) (critic C \<theta> sub_td)) = Finite s"
  shows "data (adv (minibatch_losses cfg C \<theta> sub_td)) =
           map Finite (spec_standardize s (map2 (-) (map reward sub_td) (critic C \<theta> sub_td))) \<and>
         mean_list (spec_standardize s (map2 (-) (map reward sub_td) (critic C \<theta> sub_td))) = 0 \<and>
         std_list (spec_standardize s (map2 (-) (map reward sub_td) (critic C \<theta> sub_td))) =
           Finite (s / (s + 1 / 10 ^ 8))"
proof -
  let ?a = "map2 (-) (map reward sub_td) (critic C \<theta> sub_td)"
  note f = std_list_Finite [OF assms(3)]
  have ne: "?a \<noteq> []" using f(1) by auto
  have d: "s + 1 / 10 ^ 8 \<noteq> 0" using f(3) by (simp add: add_nonneg_eq_0_iff)
  have "data (adv (minibatch_losses cfg C \<theta> sub_td)) = map Finite (spec_standardize s ?a)"
    unfolding adv_data assms(3) using assms(2) d by (simp add: spec_standardize_def)
  then show ?thesis
    using mean_standardize [OF ne] std_standardize [OF assms(3)] by simp
qed

lemma one_row_well_shaped: "well_shaped toy \<theta> one_row"
  by (simp add: well_shaped_def toy_def one_row_def)

lemma default_size_of_four: "infer_mini_batch_size default_args 4 = Inr 1"
proof -
  have r: "round_double (real (4::nat) * 0.25) = real (4::nat) * 0.25"
    by (rule round_double_quarter) simp
  have z: "py_int (real (4::nat) * 0.25) = 1"
    by (simp add: py_int_def)
  have "infer_mini_batch_size default_args 4 =
      Inr (py_int (round_double (real (4::nat) * 0.25)))"
    by (simp add: infer_mini_batch_size_def default_args_def)
  then show ?thesis by (simp only: r z)
qed

text \<open>
  Claim C2. The claim asks that for every minibatch the advantage is the stored reward
  minus the detached value of the critic and that, with \<open>normalize_adv\<close>, it is
  standardized to zero mean and unit variance with 1e-8 added to the standard deviation.
  The advantage is detached (\<open>advantage_detached\<close>, \<open>advantage_plain\<close>) and minibatches
  of two or more instances are standardized (\<open>advantage_standardized\<close>), but a minibatch
  of one instance is not: \<open>adv.std()\<close> is then NaN, which the added 1e-8 does not
  repair, and the advantage, the surrogate loss and the total loss are NaN. Such
  minibatches are ordinary: the default fraction 0.25 gives them for a batch of 4.
\<close>

theorem single_instance_normalized_advantage_is_nan:
  "infer_mini_batch_size default_args 4 = Inr 1 \<and>
   well_shaped toy 0 one_row \<and>
   data (adv (minibatch_losses (default_args\<lparr>normalize_adv := True\<rparr>) toy 0 one_row)) =
     [NaN] \<and>
   data (surrogate_loss
     (minibatch_losses (default_args\<lparr>normalize_adv := True\<rparr>) toy 0 one_row)) = NaN \<and>
   data (loss (minibatch_losses (default_args\<lparr>normalize_adv := True\<rparr>) toy 0 one_row)) = NaN \<and>
   reported ''loss''
     (shared_step (default_args\<lparr>normalize_adv := True\<rparr>) (\<lambda>phase. train_metrics) toy
        \<lparr>params = 0, opt_steps = 0\<rparr> [1, 3, 5, 7] ''train'') = Some NaN"
proof -
  let ?cfg = "default_args\<lparr>normalize_adv := True\<rparr>"
  have a: "data (adv (minibatch_losses ?cfg toy 0 one_row)) = [NaN]"
    by (simp add: adv_data toy_def one_row_def std_list_single)
  have r: "data (ratio (minibatch_losses ?cfg toy 0 one_row)) = [Finite 1]"
    by (simp add: ratio_data toy_def one_row_def)
  have s: "data (surrogate_loss (minibatch_losses ?cfg toy 0 one_row)) = NaN"
    by (simp add: surrogate_data a r fmean_def)
  have l: "data (loss (minibatch_losses ?cfg toy 0 one_row)) = NaN"
    by (simp add: loss_data s fsub_def)
  have up: "[0..<4] = [0, 1, 2, 3]" by (simp add: upt_rec)
  have n: "length (ro_actions (policy toy 0 ''train'' (env_reset toy [1, 3, 5, 7]))) = 4"
    by (simp add: toy_def)
  have size: "infer_mini_batch_size ?cfg 4 = Inr 1"
    using default_size_of_four by (simp add: infer_mini_batch_size_def default_args_def)
  have "reported ''loss''
     (shared_step ?cfg (\<lambda>phase. train_metrics) toy
        \<lparr>params = 0, opt_steps = 0\<rparr> [1, 3, 5, 7] ''train'') = Some NaN"
    apply (simp add: shared_step_def Let_def n size clamp_mini_batch_size_def DataLoader_def)
    apply (simp add: toy_def default_args_def set_rollout_def batches_def upt_2 up chunks_Cons
        minibatch_step_def finish_def reported_def train_metrics_def score_dict_def
        minibatch_losses_def Let_def normalize_def tensor_ops std_list_single fmean_def
        fsub_def mean_list_def)
    done
  with default_size_of_four one_row_well_shaped [of 0] a s l show ?thesis by simp
qed

subsection \<open>The value loss and the total loss\<close>

lemma huber_nonneg: "0 \<le> huber x y"
  by (simp add: huber_def)

lemma mean_list_nonneg: "(\<And>x. x \<in> set xs \<Longrightarrow> 0 \<le> x) \<Longrightarrow> 0 \<le> mean_list xs"
  by (simp add: mean_list_def sum_list_nonneg)

lemma huber_spec:
  "huber x y = (if \<bar>x - y\<bar> \<le> 1 then (x - y)\<^sup>2 / 2 else \<bar>x - y\<bar> - 1 / 2)"
proof (cases "\<bar>x - y\<bar> = 1")
  case True
  then have "(x - y)\<^sup>2 = 1" by (metis power2_abs one_power2)
  with True show ?thesis by (simp add: huber_def)
next
  case False
  then show ?thesis by (auto simp: huber_def)
qed

lemma minibatch_step_params:
  "params (fst (minibatch_step cfg C s sub_td)) =
     opt_step C (params s)
       (case max_grad_norm cfg of
          None \<Rightarrow> manual_backward C cfg (params s) sub_td
                    (loss (minibatch_losses cfg C (params s) sub_td))
        | Some c \<Rightarrow> clip_gradients C c
            (manual_backward C cfg (params s) sub_td
              (loss (minibatch_losses cfg C (params s) sub_td))))"
  by (simp add: minibatch_step_def Let_def split: option.splits)

text \<open>
  Claim C3. For every minibatch the value loss is the Huber loss between the prediction
  of the critic and the stored reward, so it is never negative; the total loss is
  \<open>surrogate_loss + vf_lambda * value_loss - entropy_lambda * mean(entropy)\<close> (a sum
  and a difference of floating-point values, the value loss and the entropy being
  finite), and it is the loss from which the one backward pass of the iteration takes the gradients
  that the optimizer applies.
\<close>

theorem value_loss_huber_and_total_loss:
  assumes "well_shaped C (params s) sub_td"
  shows "data (value_loss (minibatch_losses cfg C (params s) sub_td)) =
           spec_huber_loss (critic C (params s) sub_td) (map reward sub_td) \<and>
         0 \<le> data (value_loss (minibatch_losses cfg C (params s) sub_td)) \<and>
         data (loss (minibatch_losses cfg C (params s) sub_td)) =
           fsub (fadd (data (surrogate_loss (minibatch_losses cfg C (params s) sub_td)))
                      (Finite (vf_lambda cfg
                               * data (value_loss (minibatch_losses cfg C (params s) sub_td)))))
                (Finite (entropy_lambda cfg
                         * mean_list (so_entropy (policy_score C (params s) sub_td)))) \<and>
         params (fst (minibatch_step cfg C s sub_td)) =
           opt_step C (params s)
             (case max_grad_norm cfg of
                None \<Rightarrow> manual_backward C cfg (params s) sub_td
                          (loss (minibatch_losses cfg C (params s) sub_td))
              | Some c \<Rightarrow> clip_gradients C c
                  (manual_backward C cfg (params s) sub_td
                    (loss (minibatch_losses cfg C (params s) sub_td))))"
proof -
  let ?p = "critic C (params s) sub_td" and ?r = "map reward sub_td"
  from assms have cr: "length ?p = length sub_td"
    by (simp add: well_shaped_def)
  have eq: "map2 huber ?p ?r = map (\<lambda>i. huber (?p ! i) (?r ! i)) [0..<length ?r]"
    using cr by (intro map2_nth) simp
  have "mean_list (map2 huber ?p ?r) =
        sum_list (map (\<lambda>i. huber (?p ! i) (?r ! i)) [0..<length ?r]) / real (length ?r)"
    by (simp only: eq mean_list_def) simp
  then have 1: "data (value_loss (minibatch_losses cfg C (params s) sub_td)) =
      spec_huber_loss ?p ?r"
    by (simp only: value_loss_data spec_huber_loss_def huber_spec)
  have 2: "0 \<le> data (value_loss (minibatch_losses cfg C (params s) sub_td))"
    unfolding value_loss_data by (rule mean_list_nonneg) (auto simp: huber_nonneg)
  show ?thesis
    using 1 2 by (simp add: loss_data entropy_data minibatch_step_params)
qed

theorem value_loss_huber_and_total_loss_witness:
  "well_shaped toy (params \<lparr>params = 0, opt_steps = 0\<rparr>) toy_rows \<and>
   data (value_loss (minibatch_losses default_args toy 0 toy_rows)) =
     spec_huber_loss [0, 0] [1, 3] \<and>
   spec_huber_loss [0, 0] [1, 3] = 3 / 2 \<and>
   0 \<le> data (value_loss (minibatch_losses default_args toy 0 toy_rows)) \<and>
   data (loss (minibatch_losses default_args toy 0 toy_rows)) =
     fsub (fadd (data (surrogate_loss (minibatch_losses default_args toy 0 toy_rows)))
                (Finite (1 / 2 * data (value_loss (minibatch_losses default_args toy 0 toy_rows)))))
          (Finite (0 * mean_list [1, 1]))"
proof -
  have w: "well_shaped toy (params \<lparr>params = 0, opt_steps = 0\<rparr>) toy_rows"
    by (simp add: toy_well_shaped)
  have c: "critic toy 0 toy_rows = [0, 0]" "map reward toy_rows = [1, 3]"
    "so_entropy (policy_score toy 0 toy_rows) = [1, 1]"
    by (simp_all add: toy_def toy_rows_def)
  have d: "vf_lambda default_args = 1 / 2" "entropy_lambda default_args = 0"
    by (simp_all add: default_args_def)
  have e: "spec_huber_loss [0, 0] [1, 3] = 3 / 2"
    by (simp add: spec_huber_loss_def upt_2)
  show ?thesis
    using value_loss_huber_and_total_loss [OF w, where cfg = default_args] w c d e
    by simp
qed

subsection \<open>Unit ratio and zero advantage\<close>

lemma fsum_all_zero: "(\<And>x. x \<in> set xs \<Longrightarrow> x = Finite 0) \<Longrightarrow> fsum xs = Finite 0"
proof (induction xs)
  case Nil
  show ?case by simp
next
  case (Cons a xs)
  have "a = Finite 0" using Cons.prems by simp
  moreover have "fsum xs = Finite 0" using Cons by simp
  ultimately show ?case by simp
qed

lemma far_rows_well_shaped: "well_shaped toy \<theta> far_rows"
  by (simp add: well_shaped_def toy_def far_rows_def)

text \<open>
  When the exponential overflows the ratio is \<open>inf\<close>, and with an advantage of 0 the
  product \<open>inf * 0\<close> makes the surrogate loss NaN.
\<close>

lemma zero_advantage_overflow:
  "data (ratio (minibatch_losses default_args toy 1 far_rows)) = [PosInf] \<and>
   data (adv (minibatch_losses default_args toy 1 far_rows)) = [Finite 0] \<and>
   data (surrogate_loss (minibatch_losses default_args toy 1 far_rows)) = NaN"
proof -
  have r: "data (ratio (minibatch_losses default_args toy 1 far_rows)) = [PosInf]"
    by (simp add: ratio_data toy_def far_rows_def fexp_overflow)
  have a: "data (adv (minibatch_losses default_args toy 1 far_rows)) = [Finite 0]"
    by (simp add: adv_data toy_def far_rows_def default_args_def)
  show ?thesis
    by (simp add: surrogate_data r a fmean_def)
qed

text \<open>
  Claim C8, as stated, fails: it asks that with every ratio equal to 1 the surrogate
  loss be \<open>- mean(advantage)\<close>, for every configuration. \<open>clip_range\<close> is not checked,
  and with \<open>clip_range = -1/2\<close> the clamp \<open>clamp(1, 3/2, 1/2)\<close> is \<open>1/2\<close>: for the
  advantages 1 and 3 and ratios 1 the surrogate loss is \<open>-1\<close>, not \<open>-2\<close>.
\<close>

theorem unit_ratio_negative_clip_range:
  "data (ratio (minibatch_losses (default_args\<lparr>clip_range := - 1 / 2\<rparr>) toy 0 toy_rows)) =
     [Finite 1, Finite 1] \<and>
   data (adv (minibatch_losses (default_args\<lparr>clip_range := - 1 / 2\<rparr>) toy 0 toy_rows)) =
     [Finite 1, Finite 3] \<and>
   data (surrogate_loss
     (minibatch_losses (default_args\<lparr>clip_range := - 1 / 2\<rparr>) toy 0 toy_rows)) =
     Finite (- 1) \<and>
   fneg (fmean (data (adv
     (minibatch_losses (default_args\<lparr>clip_range := - 1 / 2\<rparr>) toy 0 toy_rows)))) =
     Finite (- 2) \<and>
   data (surrogate_loss
     (minibatch_losses (default_args\<lparr>clip_range := - 1 / 2\<rparr>) toy 0 toy_rows)) \<noteq>
   fneg (fmean (data (adv
     (minibatch_losses (default_args\<lparr>clip_range := - 1 / 2\<rparr>) toy 0 toy_rows))))"
  by (simp add: surrogate_data toy_ratio toy_adv default_args_def fmean_def)

text \<open>
  Claim C8, amended. For every minibatch in which every ratio is 1, and for advantages
  of any sign, the surrogate loss is \<open>- mean(advantage)\<close> provided that
  \<open>clip_range \<ge> 0\<close>; and for every minibatch in which every advantage is 0 and every
  ratio is finite (the exponential has not overflowed) the surrogate loss is 0,
  whatever the finite ratios and the clip range.
\<close>

theorem unit_ratio_and_zero_advantage:
  assumes "well_shaped C \<theta> sub_td"
  shows "(0 \<le> clip_range cfg \<and>
          data (ratio (minibatch_losses cfg C \<theta> sub_td)) =
            replicate (length sub_td) (Finite 1) \<longrightarrow>
            data (surrogate_loss (minibatch_losses cfg C \<theta> sub_td)) =
              fneg (fmean (data (adv (minibatch_losses cfg C \<theta> sub_td))))) \<and>
         (data (adv (minibatch_losses cfg C \<theta> sub_td)) =
            replicate (length sub_td) (Finite 0) \<and>
          data (ratio (minibatch_losses cfg C \<theta> sub_td)) = map Finite rs \<longrightarrow>
            data (surrogate_loss (minibatch_losses cfg C \<theta> sub_td)) = Finite 0)"
proof -
  let ?v = "minibatch_losses cfg C \<theta> sub_td"
  let ?lo = "1 - clip_range cfg" and ?hi = "1 + clip_range cfg"
  from assms have cr: "length (critic C \<theta> sub_td) = length sub_td" and ne: "sub_td \<noteq> []"
    by (simp_all add: well_shaped_def)
  have len: "length (data (adv ?v)) = length sub_td"
    by (simp add: adv_length cr)
  have one: "data (surrogate_loss ?v) = fneg (fmean (data (adv ?v)))"
    if c: "0 \<le> clip_range cfg"
      and r: "data (ratio ?v) = replicate (length sub_td) (Finite 1)"
  proof -
    from c have k: "clamp (Finite 1) ?lo ?hi = Finite 1"
      by simp
    have "map2 fmin (map2 fmul (replicate (length sub_td) (Finite 1)) (data (adv ?v)))
            (map2 fmul (map (\<lambda>x. clamp x ?lo ?hi) (replicate (length sub_td) (Finite 1)))
               (data (adv ?v))) = data (adv ?v)"
      using len by (intro nth_equalityI) (simp_all add: k del: clamp_Finite)
    then show ?thesis
      unfolding surrogate_data r by simp
  qed
  have zero: "data (surrogate_loss ?v) = Finite 0"
    if a: "data (adv ?v) = replicate (length sub_td) (Finite 0)"
      and r: "data (ratio ?v) = map Finite rs"
  proof -
    let ?terms = "map2 fmin (map2 fmul (map Finite rs) (replicate (length sub_td) (Finite 0)))
            (map2 fmul (map (\<lambda>x. clamp x ?lo ?hi) (map Finite rs))
               (replicate (length sub_td) (Finite 0)))"
    have s: "fsum ?terms = Finite 0"
      by (rule fsum_all_zero) (auto simp: set_zip)
    have "length (data (ratio ?v)) = length sub_td"
      using assms by (simp add: ratio_data well_shaped_def)
    then have "length ?terms = length sub_td"
      by (simp add: r)
    with ne have "real (length ?terms) \<noteq> 0" by simp
    with s have "fmean ?terms = Finite 0"
      by (simp add: fmean_def)
    then show ?thesis
      unfolding surrogate_data a r by simp
  qed
  from one zero show ?thesis by blast
qed

theorem unit_ratio_and_zero_advantage_witness:
  "well_shaped toy 0 toy_rows \<and> well_shaped toy 1 toy_rows \<and>
   0 \<le> clip_range default_args \<and>
   data (ratio (minibatch_losses default_args toy 0 toy_rows)) =
     replicate (length toy_rows) (Finite 1) \<and>
   data (adv (minibatch_losses default_args toy 0 toy_rows)) = [Finite 1, Finite 3] \<and>
   data (surrogate_loss (minibatch_losses default_args toy 0 toy_rows)) = Finite (- 2) \<and>
   data (adv (minibatch_losses default_args toy 1 toy_rows)) =
     replicate (length toy_rows) (Finite 0) \<and>
   data (ratio (minibatch_losses default_args toy 1 toy_rows)) = map Finite [1, 1] \<and>
   data (surrogate_loss (minibatch_losses default_args toy 1 toy_rows)) = Finite 0"
proof -
  have n: "\<not> normalize_adv default_args" by (simp add: default_args_def)
  have c: "0 \<le> clip_range default_args" by (simp add: default_args_def)
  have l: "replicate (length toy_rows) x = [x, x]" for x :: fval
    by (simp add: toy_rows_def numeral_2_eq_2)
  have r: "data (ratio (minibatch_losses default_args toy 0 toy_rows)) =
      replicate (length toy_rows) (Finite 1)"
    by (simp add: toy_ratio l)
  have r1: "data (ratio (minibatch_losses default_args toy 1 toy_rows)) = map Finite [1, 1]"
    by (simp add: toy_ratio)
  have a1: "data (adv (minibatch_losses default_args toy 1 toy_rows)) =
      replicate (length toy_rows) (Finite 0)"
    by (simp add: toy_adv [OF n] l)
  have a0: "data (adv (minibatch_losses default_args toy 0 toy_rows)) = [Finite 1, Finite 3]"
    by (simp add: toy_adv [OF n])
  have "data (surrogate_loss (minibatch_losses default_args toy 0 toy_rows)) =
      fneg (fmean (data (adv (minibatch_losses default_args toy 0 toy_rows))))"
    using unit_ratio_and_zero_advantage [OF toy_well_shaped [of 0], where cfg = default_args]
      c r by blast
  then have s0: "data (surrogate_loss (minibatch_losses default_args toy 0 toy_rows)) =
      Finite (- 2)"
    by (simp add: a0 fmean_def)
  have s1: "data (surrogate_loss (minibatch_losses default_args toy 1 toy_rows)) = Finite 0"
    using unit_ratio_and_zero_advantage [OF toy_well_shaped [of 1], where cfg = default_args
        and rs = "[1, 1]"] a1 r1 by blast
  show ?thesis
    using toy_well_shaped [of 0] toy_well_shaped [of 1] c r a0 a1 r1 s0 s1 by blast
qed

subsection \<open>The result of a step\<close>

text \<open>
  Claim C5. The claim asks that a training step report the mean reward of the rollout
  over the whole batch, with the losses and the entropy of the last minibatch. The
  inner loop rebinds \<open>out\<close> to the result of the scoring call (line 168), so that
  \<open>log_metrics\<close> is given the dictionary of the last minibatch: with two instances of
  rewards 1 and 3, minibatches of one instance and one epoch, the reward reported is 3,
  the reward of the last minibatch, and the mean reward of the rollout is 2.
\<close>

theorem train_reward_metric_is_last_minibatch:
  "reported ''reward''
     (shared_step (default_args\<lparr>mini_batch_size := PyInt 1, ppo_epochs := 1\<rparr>)
        (\<lambda>phase. train_metrics) toy \<lparr>params = 0, opt_steps = 0\<rparr> [1, 3] ''train'') =
     Some (Finite 3) \<and>
   mean_list (ro_reward (policy toy 0 ''train'' (env_reset toy [1, 3]))) = 2"
proof -
  have rollout: "mean_list (ro_reward (policy toy 0 ''train'' (env_reset toy [1, 3]))) = 2"
    by (simp add: toy_def mean_list_def)
  have "reported ''reward''
     (shared_step (default_args\<lparr>mini_batch_size := PyInt 1, ppo_epochs := 1\<rparr>)
        (\<lambda>phase. train_metrics) toy \<lparr>params = 0, opt_steps = 0\<rparr> [1, 3] ''train'') =
     Some (Finite 3)"
    apply (simp add: shared_step_def Let_def infer_mini_batch_size_def default_args_def
        clamp_mini_batch_size_def DataLoader_def)
    apply (simp add: toy_def set_rollout_def batches_def upt_2 chunks_Cons minibatch_step_def
        finish_def reported_def train_metrics_def score_dict_def minibatch_losses_def
        Let_def fmean_def)
    done
  with rollout show ?thesis by simp
qed

text \<open>
  Claim C10. In every phase other than \<open>train\<close> the step runs no inner loop and no
  step of the optimizer: the module is returned as it was (parameters and count of
  optimizer steps), the key \<open>loss\<close> of the result is \<open>None\<close>, and the metrics are those
  of the one evaluation of the policy on the reset environment, whose tensors, computed
  under \<open>torch.no_grad()\<close>, carry no graph.
\<close>

theorem eval_phase_leaves_module_unchanged:
  assumes "phase \<noteq> ''train''"
  shows "shared_step cfg metric_names C s batch phase =
           Inr (s, \<lparr>ret_loss = None,
                    ret_metrics = log_metrics (metric_names phase)
                      (rollout_dict (policy C (params s) phase (env_reset C batch)))\<rparr>) \<and>
         map (map_option entry_graph \<circ>
              rollout_dict (policy C (params s) phase (env_reset C batch)))
           [''actions'', ''log_likelihood'', ''reward''] = [Some {}, Some {}, Some {}]"
  using assms by (simp add: shared_step_def finish_def rollout_dict_def Let_def)

theorem eval_phase_leaves_module_unchanged_witness:
  "''val'' \<noteq> ''train'' \<and>
   shared_step default_args (\<lambda>phase. [''reward'']) toy \<lparr>params = 0, opt_steps = 0\<rparr>
     [1, 3] ''val'' =
     Inr (\<lparr>params = 0, opt_steps = 0\<rparr>,
          \<lparr>ret_loss = None, ret_metrics = [(''reward'', Finite 2)]\<rparr>)"
proof -
  have h: "''val'' \<noteq> ''train''" by simp
  have m: "log_metrics [''reward'']
      (rollout_dict (policy toy (params \<lparr>params = 0::real, opt_steps = 0\<rparr>) ''val''
         (env_reset toy [1, 3]))) = [(''reward'', Finite 2)]"
    by (simp add: rollout_dict_def toy_def fmean_def)
  show ?thesis
    using eval_phase_leaves_module_unchanged [OF h, where cfg = default_args
        and metric_names = "\<lambda>phase. [''reward'']" and C = toy
        and s = "\<lparr>params = 0, opt_steps = 0\<rparr>" and batch = "[1, 3]"] m
    by simp
qed

end
